theory Spec2Isabelle
  imports Main "HOL-Library.Word"
begin

section \<open>JavaScript values used by web3-utils.js\<close>

text \<open>
  A JavaScript string is a sequence of 16-bit code units; \<open>length\<close>, indexing,
  \<open>slice\<close> and \<open>substring\<close> all count code units. The ellipsis glyph of
  \<open>shortenAddress\<close> (U+2026) is one code unit, so strings are lists of 16-bit words and
  not lists of bytes.
\<close>

type_synonym codeunit = "16 word"
type_synonym jsstring = "codeunit list"

text \<open>ASCII literals of the source, written as HOL strings.\<close>

definition cu :: "char \<Rightarrow> codeunit" where
  "cu c = of_char c"

definition js :: "string \<Rightarrow> jsstring" where
  "js s = map cu s"

definition dot :: codeunit where
  "dot = 0x2E"

definition ellipsis :: codeunit where
  "ellipsis = 0x2026"

text \<open>
  The address parameters are documented as strings, and the functions test them for
  falsiness, so that the absent values \<open>null\<close> and \<open>undefined\<close> are inputs as well.
  These are the values the address functions are modelled on; numbers and booleans
  are not.
\<close>

datatype jsval = JUndefined | JNull | JStr jsstring

text \<open>ToBoolean: \<open>undefined\<close>, \<open>null\<close> and the empty string are falsy.\<close>

fun truthy :: "jsval \<Rightarrow> bool" where
  "truthy JUndefined = False"
| "truthy JNull = False"
| "truthy (JStr s) = (s \<noteq> [])"

datatype error = TypeError | InvalidNumber | ConstructionFailure

text \<open>
  A parameter with a default value, \<open>f(x = d)\<close>: the argument may be absent
  (\<open>None\<close>), and then the default stands in for it.
\<close>

definition orElse :: "'a option \<Rightarrow> 'a \<Rightarrow> 'a" where
  "orElse arg d = (case arg of None \<Rightarrow> d | Some v \<Rightarrow> v)"

subsection \<open>String built-ins\<close>

text \<open>
  \<open>String.prototype.toLowerCase\<close> and \<open>toUpperCase\<close> follow the Unicode case
  mappings. The model is exact on Basic Latin (code units below U+0080) and on
  U+00DF (LATIN SMALL LETTER SHARP S), which has no lower-case change and whose
  upper case is the two code units \<open>SS\<close> (SpecialCasing.txt). Every other code unit
  is left as it is; no theorem below speaks about those.
\<close>

definition lowerUnit :: "codeunit \<Rightarrow> codeunit" where
  "lowerUnit c = (if 0x41 \<le> c \<and> c \<le> 0x5A then c + 0x20 else c)"

definition upperUnit :: "codeunit \<Rightarrow> jsstring" where
  "upperUnit c =
     (if 0x61 \<le> c \<and> c \<le> 0x7A then [c - 0x20]
      else if c = 0xDF then [0x53, 0x53]
      else [c])"

definition toLowerCase :: "jsstring \<Rightarrow> jsstring" where
  "toLowerCase s = map lowerUnit s"

definition toUpperCase :: "jsstring \<Rightarrow> jsstring" where
  "toUpperCase s = concat (map upperUnit s)"

text \<open>
  \<open>s.slice(start, end)\<close>: a negative index counts from the end, both are clamped to
  the string, and an absent \<open>end\<close> is the length.
\<close>

definition slice :: "jsstring \<Rightarrow> int \<Rightarrow> int option \<Rightarrow> jsstring" where
  "slice s start end =
     (let len = int (length s);
          from = (if start < 0 then max (len + start) 0 else min start len);
          e = (case end of None \<Rightarrow> len | Some e \<Rightarrow> e);
          to = (if e < 0 then max (len + e) 0 else min e len)
      in take (nat (to - from)) (drop (nat from) s))"

text \<open>
  \<open>s.substring(start, end)\<close>: both indices are clamped to \<open>[0, length]\<close> and swapped
  when out of order.
\<close>

definition substring :: "jsstring \<Rightarrow> int \<Rightarrow> int \<Rightarrow> jsstring" where
  "substring s start end =
     (let len = int (length s);
          fs = min (max start 0) len;
          fe = min (max end 0) len;
          from = min fs fe;
          to = max fs fe
      in take (nat (to - from)) (drop (nat from) s))"

text \<open>\<open>s.indexOf(c)\<close> for a one-unit pattern: the first position, or \<open>-1\<close>.\<close>

definition indexOf :: "jsstring \<Rightarrow> codeunit \<Rightarrow> int" where
  "indexOf s c = (if c \<in> set s then int (length (takeWhile (\<lambda>x. x \<noteq> c) s)) else - 1)"

text \<open>\<open>s[i]\<close>: the code unit at \<open>i\<close>, or \<open>undefined\<close> (here \<open>None\<close>) out of range.\<close>

definition charAt :: "jsstring \<Rightarrow> int \<Rightarrow> codeunit option" where
  "charAt s i = (if 0 \<le> i \<and> i < int (length s) then Some (s ! nat i) else None)"

section \<open>Address utilities\<close>

definition ANY_ADDRESS :: jsstring where
  "ANY_ADDRESS = js ''0xFFfFfFffFFfffFFfFFfFFFFFffFFFffffFfFFFfF''"

definition EMPTY_ADDRESS :: jsstring where
  "EMPTY_ADDRESS = js ''0x0000000000000000000000000000000000000000''"

text \<open>
  \<open>first && first.toLowerCase()\<close>: a falsy value is passed through, a non-empty
  string is lower-cased.
\<close>

definition lowered :: "jsval \<Rightarrow> jsval" where
  "lowered v = (case v of JStr s \<Rightarrow> (if truthy v then JStr (toLowerCase s) else v) | _ \<Rightarrow> v)"

definition addressesEqual :: "jsval \<Rightarrow> jsval \<Rightarrow> bool" where
  "addressesEqual first second = (lowered first = lowered second)"

text \<open>\<open>shortenAddress(address, charsLength = 4)\<close>.\<close>

definition shortenAddress :: "jsval \<Rightarrow> int option \<Rightarrow> jsstring" where
  "shortenAddress address charsLengthArg =
     (let charsLength = orElse charsLengthArg 4;
          prefixLength = 2
      in case address of
           JStr a \<Rightarrow>
             if \<not> truthy address then []
             else if int (length a) < charsLength * 2 + prefixLength then a
             else slice a 0 (Some (charsLength + prefixLength)) @ [ellipsis]
                  @ slice a (- charsLength) None
         | _ \<Rightarrow> [])"

definition isAnyAddress :: "jsval \<Rightarrow> bool" where
  "isAnyAddress address = (address = JStr ANY_ADDRESS)"

definition isEmptyAddress :: "jsval \<Rightarrow> bool" where
  "isEmptyAddress address = (address = JStr EMPTY_ADDRESS)"

definition getAnyAddress :: jsstring where
  "getAnyAddress = ANY_ADDRESS"

definition getEmptyAddress :: jsstring where
  "getEmptyAddress = EMPTY_ADDRESS"

section \<open>Unit conversion\<close>

subsection \<open>Decimal strings\<close>

definition isDigit :: "codeunit \<Rightarrow> bool" where
  "isDigit c = (0x30 \<le> c \<and> c \<le> 0x39)"

definition digitVal :: "codeunit \<Rightarrow> nat" where
  "digitVal c = unat c - 48"

definition digitUnit :: "nat \<Rightarrow> codeunit" where
  "digitUnit d = 0x30 + of_nat d"

text \<open>The decimal numeral of a natural number, as \<open>toString(10)\<close> prints it.\<close>

function decStr :: "nat \<Rightarrow> jsstring" where
  "decStr n = (if n < 10 then [digitUnit n] else decStr (n div 10) @ [digitUnit (n mod 10)])"
  by pat_completeness auto
termination
  by (relation "measure (\<lambda>n. n)") auto

declare decStr.simps [simp del]

definition parseDec :: "jsstring \<Rightarrow> nat option" where
  "parseDec s =
     (if s \<noteq> [] \<and> list_all isDigit s
      then Some (foldl (\<lambda>n c. 10 * n + digitVal c) 0 s) else None)"

subsection \<open>The external conversion routine\<close>

text \<open>The display units, with the power of ten each one scales by.\<close>

datatype ethUnit = Wei | Kwei | Mwei | Gwei | Szabo | Finney | Ether

fun unitExp :: "ethUnit \<Rightarrow> nat" where
  "unitExp Wei = 0"
| "unitExp Kwei = 3"
| "unitExp Mwei = 6"
| "unitExp Gwei = 9"
| "unitExp Szabo = 12"
| "unitExp Finney = 15"
| "unitExp Ether = 18"

definition padZeros :: "nat \<Rightarrow> jsstring \<Rightarrow> jsstring" where
  "padZeros k s = replicate (k - length s) 0x30 @ s"

definition stripTrailingZeros :: "jsstring \<Rightarrow> jsstring" where
  "stripTrailingZeros s = rev (dropWhile (\<lambda>c. c = 0x30) (rev s))"

text \<open>
  Modelled from the spec: \<open>Web3.utils.fromWei\<close>, the conversion routine of the
  external library, which is not part of this repository. It scales the
  non-negative integer that the string \<open>wei\<close> encodes by the unit's power of ten,
  exactly: the whole part, then, when the fraction is not zero, a decimal point and
  the fraction without its trailing zeros (so \<open>1230000000000000000\<close> wei is \<open>1.23\<close>
  ether, \<open>1000000000000000000\<close> wei is \<open>1\<close> and \<open>100000000000000000\<close> wei is \<open>0.1\<close>).
  A string that is not a decimal numeral makes the routine raise.
\<close>

definition fromWei :: "jsstring \<Rightarrow> ethUnit \<Rightarrow> error + jsstring" where
  "fromWei wei unit =
     (case parseDec wei of
        None \<Rightarrow> Inl InvalidNumber
      | Some n \<Rightarrow>
          let base = 10 ^ unitExp unit;
              whole = n div base;
              fraction = n mod base
          in Inr (decStr whole @
                  (if fraction = 0 then []
                   else dot # stripTrailingZeros (padZeros (unitExp unit) (decStr fraction)))))"

subsection \<open>Rounding a one-digit decimal held in a string\<close>

text \<open>
  The white space that ToNumber trims from a string: the WhiteSpace and
  LineTerminator code points of ECMAScript.
\<close>

definition isStrWhiteSpace :: "codeunit \<Rightarrow> bool" where
  "isStrWhiteSpace c =
     (c \<in> {0x09, 0x0A, 0x0B, 0x0C, 0x0D, 0x20, 0xA0, 0x1680, 0x2028, 0x2029,
            0x202F, 0x205F, 0x3000, 0xFEFF}
      \<or> (0x2000 \<le> c \<and> c \<le> 0x200A))"

text \<open>
  \<open>Math.round(a + '.' + b)\<close> for two code units \<open>a\<close> and \<open>b\<close>: the three-unit string
  is converted by ToNumber and the number is rounded to the nearest integer, a half
  going up. \<open>None\<close> is \<open>NaN\<close>. The string is a numeric literal in four shapes only:
  digit, point, digit; digit, point, white space; white space or \<open>+\<close>, point, digit;
  \<open>-\<close>, point, digit. A one-digit decimal and its half are told apart exactly by the
  double nearest to them, so the rounding is that of the digits; \<open>Math.round\<close> of
  \<open>-0.1\<close> to \<open>-0.5\<close> is \<open>-0\<close>, which prints as \<open>0\<close>.
\<close>

definition roundedPair :: "codeunit \<Rightarrow> codeunit \<Rightarrow> int option" where
  "roundedPair a b =
     (if isDigit a \<and> isDigit b
        then Some (int (digitVal a) + (if 5 \<le> digitVal b then 1 else 0))
      else if isDigit a \<and> isStrWhiteSpace b
        then Some (int (digitVal a))
      else if (isStrWhiteSpace a \<or> a = 0x2B) \<and> isDigit b
        then Some (if 5 \<le> digitVal b then 1 else 0)
      else if a = 0x2D \<and> isDigit b
        then Some (if 6 \<le> digitVal b then - 1 else 0)
      else None)"

text \<open>ToString of the rounded number, as \<open>concat\<close> applies it to its argument.\<close>

definition numberToString :: "int option \<Rightarrow> jsstring" where
  "numberToString r =
     (case r of
        None \<Rightarrow> js ''NaN''
      | Some n \<Rightarrow> if n < 0 then 0x2D # decStr (nat (- n)) else decStr (nat n))"

subsection \<open>fromWeiRounded\<close>

text \<open>
  The body of \<open>fromWeiRounded\<close> after the call of the conversion routine, on the
  converted string. \<open>unitValue[unitValue.length-2].concat(...)\<close> raises a TypeError when
  the truncated string has fewer than two code units, because \<open>undefined\<close> has no
  \<open>concat\<close>. The source's string \<open>roundedLastDigit\<close> is the second-to-last code
  unit \<open>a\<close>, a point and the last code unit \<open>b\<close>; \<open>rounded\<close> is \<open>Math.round\<close> of
  it. (Were the last code unit absent, the string would end in \<open>undefined\<close> and be no
  number; a string with a second-to-last unit always has a last one.)
\<close>

definition roundUnitValue :: "jsstring \<Rightarrow> int \<Rightarrow> error + jsstring" where
  "roundUnitValue converted digits =
     (let decimalIndex = indexOf converted dot
      in if decimalIndex \<noteq> - 1 then
           (let unitValue = substring converted 0 (decimalIndex + digits + 2);
                len = int (length unitValue)
            in case charAt unitValue (len - 2) of
                 None \<Rightarrow> Inl TypeError
               | Some a \<Rightarrow>
                   (let rounded =
                          (case charAt unitValue (len - 1) of
                             None \<Rightarrow> None
                           | Some b \<Rightarrow> roundedPair a b)
                    in Inr (substring unitValue 0 (len - 2) @ numberToString rounded)))
         else Inr converted)"

text \<open>
  \<open>fromWeiRounded(wei, digits = 2, unit = 'ether')\<close>. An error of the conversion
  routine propagates.
\<close>

definition fromWeiRounded :: "jsstring \<Rightarrow> int option \<Rightarrow> ethUnit option \<Rightarrow> error + jsstring" where
  "fromWeiRounded wei digitsArg unitArg =
     (let digits = orElse digitsArg 2;
          unit = orElse unitArg Ether
      in case fromWei wei unit of
           Inl e \<Rightarrow> Inl e
         | Inr unitValue \<Rightarrow> roundUnitValue unitValue digits)"

section \<open>The client cache\<close>

text \<open>
  Providers and client instances are objects, compared by identity: a reference is
  a number, and the store maps the reference of a provider to its fields, whatever
  they are. The cache is the module's \<open>WeakMap\<close> from provider identity to client
  instance. The log \<open>constructions\<close> records, in order, the provider of every
  instance that was built.
\<close>

type_synonym ref = nat

record 'p world =
  objects :: "ref \<rightharpoonup> 'p"
  cache :: "ref \<rightharpoonup> ref"
  nextInstance :: ref
  constructions :: "ref list"

text \<open>
  Modelled from the spec: the constructor \<open>new Web3(provider)\<close> of the external
  library. It builds a new instance, an object no earlier reference points to,
  bound to the provider, or raises; which providers it accepts is the parameter
  \<open>accepts\<close>, a test on the provider's fields.
\<close>

definition newWeb3 :: "('p \<Rightarrow> bool) \<Rightarrow> ref \<Rightarrow> 'p world \<Rightarrow> error + (ref \<times> 'p world)" where
  "newWeb3 accepts provider w =
     (case objects w provider of
        None \<Rightarrow> Inl ConstructionFailure
      | Some obj \<Rightarrow>
          if accepts obj
          then Inr (nextInstance w,
                    w\<lparr>nextInstance := Suc (nextInstance w),
                      constructions := constructions w @ [provider]\<rparr>)
          else Inl ConstructionFailure)"

definition getWeb3 :: "('p \<Rightarrow> bool) \<Rightarrow> ref \<Rightarrow> 'p world \<Rightarrow> error + (ref \<times> 'p world)" where
  "getWeb3 accepts provider w =
     (case cache w provider of
        Some web3 \<Rightarrow> Inr (web3, w)
      | None \<Rightarrow>
          (case newWeb3 accepts provider w of
             Inl e \<Rightarrow> Inl e
           | Inr (web3, w') \<Rightarrow> Inr (web3, w'\<lparr>cache := (cache w')(provider \<mapsto> web3)\<rparr>)))"

text \<open>The module is loaded with an empty cache.\<close>

definition initial :: "(ref \<rightharpoonup> 'p) \<Rightarrow> 'p world" where
  "initial objs = \<lparr>objects = objs, cache = Map.empty, nextInstance = 0, constructions = []\<rparr>"

text \<open>
  The worlds the module can be in: the loaded one, and any reached by a call of
  \<open>getWeb3\<close> that returned.
\<close>

inductive reachable :: "('p \<Rightarrow> bool) \<Rightarrow> 'p world \<Rightarrow> bool" for accepts :: "'p \<Rightarrow> bool" where
  start: "reachable accepts (initial objs)"
| call: "reachable accepts w \<Longrightarrow> getWeb3 accepts provider w = Inr (web3, w') \<Longrightarrow>
         reachable accepts w'"

text \<open>
  What every reachable world satisfies: a cached instance has been allocated, two
  providers never share an instance, and the providers built for are exactly the
  cached ones, each once.
\<close>

definition cacheOk :: "'p world \<Rightarrow> bool" where
  "cacheOk w =
     ((\<forall>p i. cache w p = Some i \<longrightarrow> i < nextInstance w)
      \<and> (\<forall>p q i. cache w p = Some i \<and> cache w q = Some i \<longrightarrow> p = q)
      \<and> distinct (constructions w)
      \<and> set (constructions w) = dom (cache w))"

text \<open>
  An example: two provider objects with the same fields, and the worlds after a
  first call for the one and a second call for the other.
\<close>

definition twoProviders :: "ref \<rightharpoonup> string" where
  "twoProviders = [0 \<mapsto> ''ws://localhost:8545'', 1 \<mapsto> ''ws://localhost:8545'']"

definition afterFirst :: "string world" where
  "afterFirst = \<lparr>objects = twoProviders, cache = [0 \<mapsto> 0], nextInstance = 1,
                  constructions = [0]\<rparr>"

definition afterSecond :: "string world" where
  "afterSecond = \<lparr>objects = twoProviders, cache = [0 \<mapsto> 0, 1 \<mapsto> 1], nextInstance = 2,
                   constructions = [0, 1]\<rparr>"

section \<open>Evaluation and helper lemmas\<close>

lemma decStr_small: "n < 10 \<Longrightarrow> decStr n = [digitUnit n]"
  by (simp add: decStr.simps)

lemma decStr_large: "\<not> n < 10 \<Longrightarrow> decStr n = decStr (n div 10) @ [digitUnit (n mod 10)]"
  by (subst decStr.simps) simp

lemmas eval_defs = js_def cu_def dot_def orElse_def parseDec_def isDigit_def digitVal_def
  digitUnit_def padZeros_def stripTrailingZeros_def decStr_small decStr_large fromWei_def
  indexOf_def substring_def charAt_def roundedPair_def isStrWhiteSpace_def numberToString_def
  roundUnitValue_def fromWeiRounded_def Let_def

subsection \<open>Conversions of the examples\<close>

lemma fromWei_123: "fromWei (js ''1230000000000000000'') Ether = Inr (js ''1.23'')"
  by (simp add: eval_defs)

lemma fromWei_0996: "fromWei (js ''996000000000000000'') Ether = Inr (js ''0.996'')"
  by (simp add: eval_defs)

lemma fromWei_1: "fromWei (js ''1000000000000000000'') Ether = Inr (js ''1'')"
  by (simp add: eval_defs)

lemma fromWei_01: "fromWei (js ''100000000000000000'') Ether = Inr (js ''0.1'')"
  by (simp add: eval_defs)

subsection \<open>Case mapping on Basic Latin\<close>

lemma lower_upper_unit: "c < 0x80 \<Longrightarrow> map lowerUnit (upperUnit c) = [lowerUnit c]"
  unfolding lowerUnit_def upperUnit_def
  by (auto; unat_arith)

lemma lower_upper_ascii:
  "\<forall>c\<in>set a. c < 0x80 \<Longrightarrow> toLowerCase (toUpperCase a) = toLowerCase a"
  unfolding toLowerCase_def toUpperCase_def
  by (induction a) (simp_all add: lower_upper_unit)

lemma toUpperCase_Nil_iff: "toUpperCase a = [] \<longleftrightarrow> a = []"
  by (cases a) (auto simp: toUpperCase_def upperUnit_def)

subsection \<open>String built-ins\<close>

lemma substring_0: "substring s 0 e = take (nat e) s"
  by (auto simp: substring_def Let_def min_def max_def)

lemma indexOf_found: "c \<in> set s \<Longrightarrow> 0 \<le> indexOf s c \<and> indexOf s c < int (length s)"
  by (induction s) (auto simp: indexOf_def)

lemma indexOf_absent: "c \<notin> set s \<Longrightarrow> indexOf s c = - 1"
  by (simp add: indexOf_def)

lemma indexOf_append: "c \<notin> set s \<Longrightarrow> indexOf (s @ c # t) c = int (length s)"
  by (induction s) (auto simp: indexOf_def)

lemma slice_prefix: "0 \<le> n \<Longrightarrow> slice a 0 (Some n) = take (nat n) a"
  by (auto simp: slice_def Let_def min_def)

lemma slice_suffix: "0 < n \<Longrightarrow> slice a (- n) None = drop (length a - nat n) a"
  by (auto simp: slice_def Let_def max_def nat_diff_distrib')

lemma slice_whole: "slice a 0 None = a"
  by (simp add: slice_def)

subsection \<open>The rounding step\<close>

lemma roundedPair_digits:
  "isDigit a \<Longrightarrow> isDigit b \<Longrightarrow>
   numberToString (roundedPair a b) =
   decStr (if 5 \<le> digitVal b then digitVal a + 1 else digitVal a)"
  by (simp add: roundedPair_def numberToString_def nat_add_distrib)

lemma roundedPair_nine:
  "isDigit b \<Longrightarrow> 5 \<le> digitVal b \<Longrightarrow> numberToString (roundedPair 0x39 b) = js ''10''"
  by (simp add: roundedPair_def numberToString_def isDigit_def digitVal_def decStr_small
      decStr_large digitUnit_def js_def cu_def)

lemma roundedPair_dot: "roundedPair dot d = None"
  by (simp add: roundedPair_def dot_def isDigit_def isStrWhiteSpace_def)

lemma roundUnitValue_pair:
  assumes "dot \<in> set converted"
    and "unitValue = take (nat (indexOf converted dot + digits + 2)) converted"
    and "2 \<le> length unitValue"
  shows "roundUnitValue converted digits =
         Inr (take (length unitValue - 2) unitValue @
              numberToString (roundedPair (unitValue ! (length unitValue - 2))
                                          (unitValue ! (length unitValue - 1))))"
proof -
  have i: "indexOf converted dot \<noteq> - 1"
    using indexOf_found [OF assms(1)] by simp
  have a: "charAt unitValue (int (length unitValue) - 2) =
           Some (unitValue ! (length unitValue - 2))"
    using assms(3) by (simp add: charAt_def nat_diff_distrib')
  have b: "charAt unitValue (int (length unitValue) - 1) =
           Some (unitValue ! (length unitValue - 1))"
    using assms(3) by (auto simp: charAt_def nat_diff_distrib')
  have c: "nat (int (length unitValue) - 2) = length unitValue - 2"
    by simp
  show ?thesis
    unfolding roundUnitValue_def Let_def substring_0 assms(2) [symmetric]
    using i by (simp add: a b c)
qed

lemma roundUnitValue_no_point:
  "dot \<notin> set converted \<Longrightarrow> roundUnitValue converted digits = Inr converted"
  by (simp add: roundUnitValue_def indexOf_absent)

lemma one_digit_untruncated:
  assumes "dot \<notin> set whole" and "0 \<le> digits"
  shows "take (nat (indexOf (whole @ [dot, d]) dot + digits + 2)) (whole @ [dot, d]) =
         whole @ [dot, d]"
proof -
  have "length (whole @ [dot, d]) \<le> nat (indexOf (whole @ [dot, d]) dot + digits + 2)"
    using assms by (simp add: indexOf_append)
  then show ?thesis by (rule take_all)
qed

lemma roundUnitValue_one_digit:
  assumes "dot \<notin> set whole" and "0 \<le> digits"
  shows "roundUnitValue (whole @ [dot, d]) digits = Inr (whole @ js ''NaN'')"
proof -
  let ?u = "whole @ [dot, d]"
  have "roundUnitValue ?u digits =
         Inr (take (length ?u - 2) ?u @
              numberToString (roundedPair (?u ! (length ?u - 2)) (?u ! (length ?u - 1))))"
  proof (rule roundUnitValue_pair)
    show "dot \<in> set ?u" by simp
    show "?u = take (nat (indexOf ?u dot + digits + 2)) ?u"
      by (rule one_digit_untruncated [OF assms, symmetric])
    show "2 \<le> length ?u" by simp
  qed
  then show ?thesis
    by (simp add: nth_append roundedPair_dot numberToString_def)
qed

lemma digitUnit_not_dot: "d < 10 \<Longrightarrow> digitUnit d \<noteq> dot"
proof -
  assume "d < 10"
  then have "d \<in> {0, 1, 2, 3, 4, 5, 6, 7, 8, 9}" by auto
  then show ?thesis by (auto simp: digitUnit_def dot_def)
qed

lemma decStr_no_point: "dot \<notin> set (decStr n)"
proof (induction n rule: decStr.induct)
  case (1 n)
  show ?case
  proof (cases "n < 10")
    case True
    then show ?thesis by (simp add: decStr_small digitUnit_not_dot [symmetric])
  next
    case False
    with 1 have "dot \<notin> set (decStr (n div 10))" by simp
    moreover have "digitUnit (n mod 10) \<noteq> dot" by (rule digitUnit_not_dot) simp
    ultimately show ?thesis using False by (simp add: decStr_large)
  qed
qed

lemma decStr_not_Nil: "decStr n \<noteq> []"
  by (cases "n < 10") (simp_all add: decStr_small decStr_large)

lemma indexOf_after_prefix:
  "c \<notin> set p \<Longrightarrow> c \<in> set r \<Longrightarrow> int (length p) \<le> indexOf (p @ r) c"
  by (induction p) (auto simp: indexOf_def)

lemma fromWei_shape:
  assumes "fromWei wei unit = Inr converted"
  shows "\<exists>n r. converted = decStr n @ r"
  using assms by (auto simp: fromWei_def Let_def split: option.splits)

lemma fromWei_truncation_keeps_pair:
  assumes cv: "fromWei wei unit = Inr converted" and pt: "dot \<in> set converted"
    and nn: "0 \<le> digits"
  shows "2 \<le> length (take (nat (indexOf converted dot + digits + 2)) converted)"
proof -
  from fromWei_shape [OF cv] obtain n r where c: "converted = decStr n @ r" by blast
  have np: "dot \<notin> set (decStr n)" by (rule decStr_no_point)
  with pt c have "dot \<in> set r" by simp
  with np have "int (length (decStr n)) \<le> indexOf converted dot"
    unfolding c by (rule indexOf_after_prefix)
  moreover have "1 \<le> length (decStr n)"
    using decStr_not_Nil [of n] by (cases "decStr n") simp_all
  ultimately have i: "1 \<le> indexOf converted dot" by simp
  moreover have "indexOf converted dot < int (length converted)"
    using indexOf_found [OF pt] by simp
  ultimately show ?thesis using nn by simp
qed

lemma fromWeiRounded_converted:
  "fromWei wei (orElse unitArg Ether) = Inr converted \<Longrightarrow>
   fromWeiRounded wei digitsArg unitArg = roundUnitValue converted (orElse digitsArg 2)"
  by (simp add: fromWeiRounded_def)

subsection \<open>shortenAddress\<close>

lemma shortenAddress_falsy: "\<not> truthy v \<Longrightarrow> shortenAddress v arg = []"
  by (cases v) (simp_all add: shortenAddress_def)

lemma shortenAddress_short:
  "a \<noteq> [] \<Longrightarrow> int (length a) < orElse arg 4 * 2 + 2 \<Longrightarrow> shortenAddress (JStr a) arg = a"
  by (simp add: shortenAddress_def)

lemma shortenAddress_long:
  assumes "c = orElse arg 4" and "1 \<le> c" and "c * 2 + 2 \<le> int (length a)"
  shows "shortenAddress (JStr a) arg =
         take (nat (c + 2)) a @ [ellipsis] @ drop (length a - nat c) a"
    and "int (length (shortenAddress (JStr a) arg)) = c * 2 + 3"
proof -
  have ne: "a \<noteq> []" using assms by auto
  show eq: "shortenAddress (JStr a) arg =
            take (nat (c + 2)) a @ [ellipsis] @ drop (length a - nat c) a"
    using assms ne by (simp add: shortenAddress_def Let_def slice_prefix slice_suffix)
  show "int (length (shortenAddress (JStr a) arg)) = c * 2 + 3"
    unfolding eq using assms by (simp add: min_def)
qed

lemma shortenAddress_zero:
  "2 \<le> length a \<Longrightarrow> shortenAddress (JStr a) (Some 0) = take 2 a @ [ellipsis] @ a"
  by (auto simp: shortenAddress_def orElse_def slice_prefix slice_whole)

lemma shortenAddress_example_4:
  "shortenAddress (JStr (js ''0x19731977931271'')) (Some 4) = js ''0x1973'' @ [ellipsis] @ js ''1271''"
  by (simp add: shortenAddress_def orElse_def slice_def js_def)

lemma shortenAddress_example_2:
  "shortenAddress (JStr (js ''0x19731977931271'')) (Some 2) = js ''0x19'' @ [ellipsis] @ js ''71''"
  by (simp add: shortenAddress_def orElse_def slice_def js_def)

lemma shortenAddress_example_short:
  "shortenAddress (JStr (js ''0x197319'')) None = js ''0x197319''"
  by (simp add: shortenAddress_def orElse_def js_def)

lemma shortenAddress_boundary:
  assumes "1 \<le> orElse arg 4" and "int (length a) = orElse arg 4 * 2 + 2"
  shows "length (shortenAddress (JStr a) arg) = length a + 1"
proof -
  have "int (length (shortenAddress (JStr a) arg)) = orElse arg 4 * 2 + 3"
    using assms by (intro shortenAddress_long(2) [where c = "orElse arg 4"]) simp_all
  with assms(2) show ?thesis by simp
qed

subsection \<open>The cache invariant\<close>

lemma cacheOk_initial: "cacheOk (initial objs)"
  by (simp add: cacheOk_def initial_def)

lemma getWeb3_cases:
  assumes "getWeb3 accepts p w = Inr (c, w')"
  shows "(cache w p = Some c \<and> w' = w) \<or>
         (cache w p = None \<and> c = nextInstance w \<and>
          w' = w\<lparr>nextInstance := Suc (nextInstance w),
                 constructions := constructions w @ [p],
                 cache := (cache w)(p \<mapsto> nextInstance w)\<rparr>)"
  using assms
  by (auto simp: getWeb3_def newWeb3_def split: option.splits sum.splits if_splits)

lemma cacheOk_step:
  assumes "cacheOk w" and "getWeb3 accepts p w = Inr (c, w')"
  shows "cacheOk w'"
  using getWeb3_cases [OF assms(2)]
proof
  assume "cache w p = Some c \<and> w' = w"
  with assms(1) show ?thesis by simp
next
  assume h: "cache w p = None \<and> c = nextInstance w \<and>
          w' = w\<lparr>nextInstance := Suc (nextInstance w),
                 constructions := constructions w @ [p],
                 cache := (cache w)(p \<mapsto> nextInstance w)\<rparr>"
  from assms(1) have a: "\<And>q i. cache w q = Some i \<Longrightarrow> i < nextInstance w"
    and b: "\<And>q r i. cache w q = Some i \<Longrightarrow> cache w r = Some i \<Longrightarrow> q = r"
    and c: "distinct (constructions w)" and d: "set (constructions w) = dom (cache w)"
    by (auto simp: cacheOk_def)
  from h d have pn: "p \<notin> set (constructions w)" by (auto simp: dom_def)
  show ?thesis
    unfolding cacheOk_def using h a b c d pn
    by (auto simp: less_Suc_eq dest: a b split: if_splits)
qed

lemma reachable_cacheOk: "reachable accepts w \<Longrightarrow> cacheOk w"
  by (induction rule: reachable.induct) (auto intro: cacheOk_initial cacheOk_step)

lemma getWeb3_cache_after:
  assumes "getWeb3 accepts p w = Inr (c, w')"
  shows "cache w' p = Some c"
  using getWeb3_cases [OF assms] by auto

lemma getWeb3_keeps:
  assumes "getWeb3 accepts q w = Inr (c', w')" and "cache w p = Some c"
  shows "cache w' p = Some c"
  using getWeb3_cases [OF assms(1)] assms(2) by auto

lemma getWeb3_cached_hit: "cache w p = Some c \<Longrightarrow> getWeb3 accepts p w = Inr (c, w)"
  by (simp add: getWeb3_def)

lemma getWeb3_distinct:
  assumes "cacheOk w" and "p \<noteq> q" and "getWeb3 accepts p w = Inr (c1, w1)"
    and "getWeb3 accepts q w1 = Inr (c2, w2)"
  shows "c1 \<noteq> c2"
proof -
  have ok: "cacheOk w2" using assms cacheOk_step by blast
  have "cache w1 p = Some c1" using assms(3) by (rule getWeb3_cache_after)
  then have "cache w2 p = Some c1" by (rule getWeb3_keeps [OF assms(4)])
  moreover have "cache w2 q = Some c2" using assms(4) by (rule getWeb3_cache_after)
  ultimately show ?thesis using ok assms(2) unfolding cacheOk_def by blast
qed

lemma count_list_distinct: "distinct xs \<Longrightarrow> count_list xs x = (if x \<in> set xs then 1 else 0)"
  by (induction xs) auto

lemma getWeb3_built_once:
  assumes "cacheOk w" and "getWeb3 accepts p w = Inr (c, w1)"
  shows "count_list (constructions w1) p = 1" and "count_list (constructions w1) r \<le> 1"
proof -
  have ok: "cacheOk w1" using assms by (rule cacheOk_step)
  have "p \<in> dom (cache w1)" using getWeb3_cache_after [OF assms(2)] by auto
  then have "p \<in> set (constructions w1)" using ok by (simp add: cacheOk_def)
  then show "count_list (constructions w1) p = 1"
    using ok by (simp add: cacheOk_def count_list_distinct)
  show "count_list (constructions w1) r \<le> 1"
    using ok by (simp add: cacheOk_def count_list_distinct)
qed

subsection \<open>The examples, step by step\<close>

lemmas round_defs = js_def cu_def dot_def isDigit_def digitVal_def digitUnit_def decStr_small
  decStr_large indexOf_def substring_def charAt_def roundedPair_def isStrWhiteSpace_def
  numberToString_def roundUnitValue_def Let_def

lemma fromWeiRounded_ether:
  "fromWei wei Ether = Inr converted \<Longrightarrow>
   fromWeiRounded wei (Some digits) (Some Ether) = roundUnitValue converted digits"
  by (simp add: fromWeiRounded_def orElse_def)

lemma fromWeiRounded_default:
  "fromWei wei Ether = Inr converted \<Longrightarrow>
   fromWeiRounded wei None None = roundUnitValue converted 2"
  by (simp add: fromWeiRounded_def orElse_def)

lemma round_123: "roundUnitValue (js ''1.23'') 2 = Inr (js ''1.2'')"
  by (simp add: round_defs)

lemma round_0996: "roundUnitValue (js ''0.996'') 2 = Inr (js ''0.910'')"
  by (simp add: round_defs)

lemma round_1: "roundUnitValue (js ''1'') 2 = Inr (js ''1'')"
  by (simp add: round_defs)

lemma round_01: "roundUnitValue (js ''0.1'') 2 = Inr (js ''0NaN'')"
  by (simp add: round_defs)

lemma js_12_neq: "js ''1.2'' \<noteq> js ''1.23''"
  by (simp add: js_def)

subsection \<open>The rounding step on a pair of digits\<close>

text \<open>
  When the last two code units of the truncated string are digits, they are
  replaced by the first digit, plus one when the second is five or more, and nothing
  before them changes; a nine that is rounded up leaves the two characters \<open>10\<close>.
\<close>

lemma fromWeiRounded_digit_pair:
  assumes "fromWei wei unit = Inr converted" and "dot \<in> set converted"
    and "unitValue = take (nat (indexOf converted dot + digits + 2)) converted"
    and "2 \<le> length unitValue"
    and "isDigit (unitValue ! (length unitValue - 2))"
    and "isDigit (unitValue ! (length unitValue - 1))"
  shows "fromWeiRounded wei (Some digits) (Some unit) =
         Inr (take (length unitValue - 2) unitValue @
              decStr (if 5 \<le> digitVal (unitValue ! (length unitValue - 1))
                      then digitVal (unitValue ! (length unitValue - 2)) + 1
                      else digitVal (unitValue ! (length unitValue - 2))))"
proof -
  have "fromWeiRounded wei (Some digits) (Some unit) = roundUnitValue converted digits"
    using assms(1) by (simp add: fromWeiRounded_def orElse_def)
  also have "\<dots> = Inr (take (length unitValue - 2) unitValue @
             numberToString (roundedPair (unitValue ! (length unitValue - 2))
                                         (unitValue ! (length unitValue - 1))))"
    using assms(2) assms(3) assms(4) by (rule roundUnitValue_pair)
  finally show ?thesis
    using assms(5) assms(6) by (simp only: roundedPair_digits)
qed

lemma fromWeiRounded_example_0910:
  "fromWeiRounded (js ''996000000000000000'') (Some 2) (Some Ether) = Inr (js ''0.910'')"
  by (simp add: fromWeiRounded_ether [OF fromWei_0996] round_0996)

lemma fromWei_1234567: "fromWei (js ''1234567000000000000'') Ether = Inr (js ''1.234567'')"
  by (simp add: eval_defs)

lemma round_1234567_3: "roundUnitValue (js ''1.234567'') 3 = Inr (js ''1.235'')"
  by (simp add: round_defs)

lemma fromWeiRounded_example_1235:
  "fromWeiRounded (js ''1234567000000000000'') (Some 3) (Some Ether) = Inr (js ''1.235'')"
  by (simp add: fromWeiRounded_ether [OF fromWei_1234567] round_1234567_3)

lemma round_123_0: "roundUnitValue (js ''1.23'') 0 = Inr (js ''1NaN'')"
  by (simp add: round_defs)

section \<open>Claims\<close>

text \<open>
  C1. The claim: \<open>fromWeiRounded("1230000000000000000", 2, "ether")\<close> returns the
  string \<open>"1.23"\<close>. The conversion routine gives \<open>"1.23"\<close>, which is shorter than the
  \<open>decimalIndex + digits + 2 = 5\<close> code units the truncation allows, so the rounding
  step takes the digits \<open>2\<close> and \<open>3\<close> for its pair and the call returns \<open>"1.2"\<close>, not
  the value rounded to two digits that the function documents.
\<close>

theorem fromWeiRounded_123_drops_digit:
  "fromWei (js ''1230000000000000000'') Ether = Inr (js ''1.23'')
   \<and> fromWeiRounded (js ''1230000000000000000'') (Some 2) (Some Ether) = Inr (js ''1.2'')
   \<and> fromWeiRounded (js ''1230000000000000000'') (Some 2) (Some Ether) \<noteq> Inr (js ''1.23'')"
  by (simp add: fromWei_123 fromWeiRounded_ether [OF fromWei_123] round_123 js_12_neq)

text \<open>
  C2. The claim: whenever the converted string has a decimal point, it is cut to
  its first \<open>decimalIndex + digits + 2\<close> characters and the last two of them are
  replaced by the integer that rounding the first, a point and the second gives.
  For a pair of digits the code does so (\<open>fromWeiRounded_digit_pair\<close>,
  \<open>fromWeiRounded_example_0910\<close>). With \<open>digits = 0\<close> the cut leaves one digit after
  the point, the pair is the point and that digit, and what replaces it is no
  integer: \<open>1230000000000000000\<close> wei, which is \<open>1.23\<close> ether, is cut to \<open>1.2\<close> and the
  call returns \<open>1NaN\<close>.
\<close>

theorem fromWeiRounded_zero_digits_NaN:
  "fromWei (js ''1230000000000000000'') Ether = Inr (js ''1.23'')
   \<and> dot \<in> set (js ''1.23'')
   \<and> substring (js ''1.23'') 0 (indexOf (js ''1.23'') dot + 0 + 2) = js ''1.2''
   \<and> charAt (js ''1.2'') (int (length (js ''1.2'')) - 2) = Some dot
   \<and> charAt (js ''1.2'') (int (length (js ''1.2'')) - 1) = Some (cu CHR ''2'')
   \<and> roundedPair dot (cu CHR ''2'') = None
   \<and> fromWeiRounded (js ''1230000000000000000'') (Some 0) (Some Ether) = Inr (js ''1NaN'')"
proof (intro conjI)
  show "fromWei (js ''1230000000000000000'') Ether = Inr (js ''1.23'')"
    by (rule fromWei_123)
  show "dot \<in> set (js ''1.23'')"
    by (simp add: js_def cu_def dot_def)
  show "substring (js ''1.23'') 0 (indexOf (js ''1.23'') dot + 0 + 2) = js ''1.2''"
    by (simp add: substring_0 indexOf_def js_def cu_def dot_def)
  show "charAt (js ''1.2'') (int (length (js ''1.2'')) - 2) = Some dot"
    by (simp add: charAt_def js_def cu_def dot_def)
  show "charAt (js ''1.2'') (int (length (js ''1.2'')) - 1) = Some (cu CHR ''2'')"
    by (simp add: charAt_def js_def)
  show "roundedPair dot (cu CHR ''2'') = None"
    by (rule roundedPair_dot)
  show "fromWeiRounded (js ''1230000000000000000'') (Some 0) (Some Ether) = Inr (js ''1NaN'')"
    by (simp add: fromWeiRounded_ether [OF fromWei_123] round_123_0)
qed

text \<open>
  C3. When the converted string has no decimal point, \<open>fromWeiRounded\<close> returns it as
  it is, whatever \<open>digits\<close> is: \<open>1000000000000000000\<close> wei is \<open>1\<close> ether, and the
  result is \<open>1\<close>, with no \<open>.00\<close>.
\<close>

theorem fromWeiRounded_whole_unchanged:
  "(fromWei wei (orElse unitArg Ether) = Inr converted \<and> dot \<notin> set converted
    \<longrightarrow> fromWeiRounded wei digitsArg unitArg = Inr converted)
   \<and> fromWei (js ''1000000000000000000'') Ether = Inr (js ''1'')
   \<and> fromWeiRounded (js ''1000000000000000000'') (Some 2) (Some Ether) = Inr (js ''1'')"
  by (simp add: fromWeiRounded_converted roundUnitValue_no_point fromWei_1
      fromWeiRounded_ether [OF fromWei_1] round_1)

theorem fromWeiRounded_whole_unchanged_witness:
  "fromWei (js ''1000000000000000000'') (orElse None Ether) = Inr (js ''1'')
   \<and> dot \<notin> set (js ''1'')
   \<and> fromWeiRounded (js ''1000000000000000000'') (Some 7) None = Inr (js ''1'')"
proof -
  have c: "fromWei (js ''1000000000000000000'') (orElse None Ether) = Inr (js ''1'')"
    by (simp add: orElse_def fromWei_1)
  have d: "dot \<notin> set (js ''1'')"
    by (simp add: js_def cu_def dot_def)
  from fromWeiRounded_whole_unchanged [of "js ''1000000000000000000''" None "js ''1''" "Some 7"] c d
  show ?thesis by blast
qed

text \<open>
  C4. When the converted string has exactly one digit after the point and \<open>digits\<close>
  is not negative, nothing is cut off, the second-to-last character of the string
  is the point itself, \<open>Math.round\<close> is applied to two points and a digit and yields
  \<open>NaN\<close>, and \<open>fromWeiRounded\<close> returns the whole part followed by \<open>NaN\<close>:
  \<open>100000000000000000\<close> wei, which is \<open>0.1\<close> ether, gives \<open>0NaN\<close> with the default digits.
\<close>

theorem fromWeiRounded_one_digit_NaN:
  "(fromWei wei (orElse unitArg Ether) = Inr (whole @ [dot, d]) \<and> dot \<notin> set whole
      \<and> isDigit d \<and> 0 \<le> orElse digitsArg 2
    \<longrightarrow> substring (whole @ [dot, d]) 0
          (indexOf (whole @ [dot, d]) dot + orElse digitsArg 2 + 2) = whole @ [dot, d]
        \<and> charAt (whole @ [dot, d]) (int (length (whole @ [dot, d])) - 2) = Some dot
        \<and> roundedPair dot d = None
        \<and> numberToString None = js ''NaN''
        \<and> fromWeiRounded wei digitsArg unitArg = Inr (whole @ js ''NaN''))
   \<and> fromWei (js ''100000000000000000'') Ether = Inr (js ''0.1'')
   \<and> fromWeiRounded (js ''100000000000000000'') None None = Inr (js ''0NaN'')"
proof (intro conjI impI)
  assume h: "fromWei wei (orElse unitArg Ether) = Inr (whole @ [dot, d]) \<and> dot \<notin> set whole
      \<and> isDigit d \<and> 0 \<le> orElse digitsArg 2"
  then have nw: "dot \<notin> set whole" and nn: "0 \<le> orElse digitsArg 2"
    and cv: "fromWei wei (orElse unitArg Ether) = Inr (whole @ [dot, d])"
    by blast+
  show "substring (whole @ [dot, d]) 0
          (indexOf (whole @ [dot, d]) dot + orElse digitsArg 2 + 2) = whole @ [dot, d]"
    unfolding substring_0 using nw nn by (rule one_digit_untruncated)
  show "charAt (whole @ [dot, d]) (int (length (whole @ [dot, d])) - 2) = Some dot"
    by (simp add: charAt_def nth_append)
  show "roundedPair dot d = None"
    by (rule roundedPair_dot)
  show "fromWeiRounded wei digitsArg unitArg = Inr (whole @ js ''NaN'')"
    using fromWeiRounded_converted [OF cv] roundUnitValue_one_digit [OF nw nn] by simp
next
  show "numberToString None = js ''NaN''"
    by (simp add: numberToString_def)
next
  show "fromWei (js ''100000000000000000'') Ether = Inr (js ''0.1'')"
    by (rule fromWei_01)
next
  show "fromWeiRounded (js ''100000000000000000'') None None = Inr (js ''0NaN'')"
    by (simp add: fromWeiRounded_default [OF fromWei_01] round_01)
qed

theorem fromWeiRounded_one_digit_NaN_witness:
  "fromWei (js ''100000000000000000'') (orElse (Some Ether) Ether) = Inr (js ''0'' @ [dot, cu CHR ''1''])
   \<and> dot \<notin> set (js ''0'') \<and> isDigit (cu CHR ''1'') \<and> (0::int) \<le> orElse (Some 0) 2
   \<and> fromWeiRounded (js ''100000000000000000'') (Some 0) (Some Ether) = Inr (js ''0'' @ js ''NaN'')"
proof -
  have c: "fromWei (js ''100000000000000000'') (orElse (Some Ether) Ether) =
           Inr (js ''0'' @ [dot, cu CHR ''1''])"
    by (simp add: orElse_def fromWei_01) (simp add: js_def cu_def dot_def)
  have d: "dot \<notin> set (js ''0'')"
    by (simp add: js_def cu_def dot_def)
  have g: "isDigit (cu CHR ''1'')"
    by (simp add: cu_def isDigit_def)
  have n: "(0::int) \<le> orElse (Some 0) 2"
    by (simp add: orElse_def)
  from fromWeiRounded_one_digit_NaN
    [of "js ''100000000000000000''" "Some Ether" "js ''0''" "cu CHR ''1''" "Some 0"] c d g n
  show ?thesis by blast
qed

text \<open>
  C5. The claim: \<open>shortenAddress\<close> returns the empty string for a falsy address, the
  address itself when it is shorter than \<open>charsLength*2 + 2\<close>, and otherwise its first
  \<open>charsLength + 2\<close> characters, an ellipsis and its last \<open>charsLength\<close> characters,
  \<open>charsLength*2 + 3\<close> characters in all. For \<open>charsLength\<close> from one on the code
  does so (\<open>shortenAddress_falsy\<close>, \<open>shortenAddress_short\<close>, \<open>shortenAddress_long\<close>).
  For \<open>charsLength = 0\<close> the last part is \<open>address.slice(-0)\<close>, which is the whole
  address and not its last zero characters: the result for \<open>0x19731977931271\<close> is
  the prefix, the ellipsis and the full address again, 19 characters and not 3.
\<close>

theorem shortenAddress_zero_chars_appends_address:
  "shortenAddress (JStr (js ''0x19731977931271'')) (Some 0) =
     js ''0x'' @ [ellipsis] @ js ''0x19731977931271''
   \<and> length (shortenAddress (JStr (js ''0x19731977931271'')) (Some 0)) = 19
   \<and> shortenAddress (JStr (js ''0x19731977931271'')) (Some 0) \<noteq> js ''0x'' @ [ellipsis]"
  by (simp add: shortenAddress_def orElse_def slice_def js_def)

text \<open>
  C6. The claim as stated, that \<open>addressesEqual(a, a.toUpperCase())\<close> holds for
  every string, fails for a string whose upper-casing does not come back: the
  sharp s is upper-cased to \<open>SS\<close>, which lower-cases to \<open>ss\<close>.
\<close>

theorem addressesEqual_upper_sharp_s:
  "toUpperCase [0xDF] = js ''SS''
   \<and> \<not> addressesEqual (JStr [0xDF]) (JStr (toUpperCase [0xDF]))"
  by (simp add: addressesEqual_def lowered_def toUpperCase_def toLowerCase_def upperUnit_def
      lowerUnit_def js_def cu_def)

text \<open>
  C6, amended. For every string of Basic Latin (ASCII) code units, and so for every
  address written in hexadecimal, \<open>addressesEqual(a, a.toUpperCase())\<close> is true.
\<close>

theorem addressesEqual_upper_ascii:
  "\<forall>c\<in>set a. c < 0x80 \<Longrightarrow> addressesEqual (JStr a) (JStr (toUpperCase a))"
proof (cases "a = []")
  case True
  then show ?thesis
    by (simp add: addressesEqual_def lowered_def toUpperCase_def)
next
  case False
  assume "\<forall>c\<in>set a. c < 0x80"
  with False show ?thesis
    by (simp add: addressesEqual_def lowered_def toUpperCase_Nil_iff lower_upper_ascii)
qed

theorem addressesEqual_upper_ascii_witness:
  "list_all (\<lambda>c. c < 0x80) (js ''0xabCD'')
   \<and> toUpperCase (js ''0xabCD'') = js ''0XABCD''
   \<and> addressesEqual (JStr (js ''0xabCD'')) (JStr (js ''0XABCD''))"
proof -
  have a: "list_all (\<lambda>c. c < 0x80) (js ''0xabCD'')"
    by (simp add: js_def cu_def)
  then have b: "\<forall>c\<in>set (js ''0xabCD''). c < 0x80"
    by (simp add: list_all_iff)
  have u: "toUpperCase (js ''0xabCD'') = js ''0XABCD''"
    by (simp add: toUpperCase_def upperUnit_def js_def cu_def)
  from addressesEqual_upper_ascii [OF b] u a show ?thesis by simp
qed

text \<open>
  C7. A falsy input is compared as it is: \<open>addressesEqual(null, null)\<close> is true,
  \<open>addressesEqual(null, "")\<close> is false, and two falsy inputs are equal exactly when
  they are the same value.
\<close>

theorem addressesEqual_falsy:
  "addressesEqual JNull JNull
   \<and> \<not> addressesEqual JNull (JStr [])
   \<and> (\<not> truthy a \<longrightarrow> lowered a = a)
   \<and> (\<not> truthy a \<and> \<not> truthy b \<longrightarrow> addressesEqual a b = (a = b))"
  by (cases a; cases b) (simp_all add: addressesEqual_def lowered_def)

theorem addressesEqual_falsy_witness:
  "\<not> truthy JUndefined \<and> \<not> truthy (JStr []) \<and> lowered JUndefined = JUndefined
   \<and> \<not> addressesEqual JUndefined (JStr []) \<and> addressesEqual (JStr []) (JStr [])"
  using addressesEqual_falsy [of JUndefined "JStr []"] addressesEqual_falsy [of "JStr []" "JStr []"]
  by simp

text \<open>
  C8. \<open>isAnyAddress\<close> and \<open>isEmptyAddress\<close> hold of exactly the strings that
  \<open>getAnyAddress\<close> and \<open>getEmptyAddress\<close> return: the one is an any-address, the other
  is not, and the any-address in lower case is not accepted.
\<close>

theorem sentinel_checks_exact:
  "isAnyAddress a = (a = JStr getAnyAddress)
   \<and> isEmptyAddress a = (a = JStr getEmptyAddress)
   \<and> isAnyAddress (JStr getAnyAddress)
   \<and> \<not> isAnyAddress (JStr getEmptyAddress)
   \<and> \<not> isAnyAddress (JStr (toLowerCase getAnyAddress))"
  by (simp add: isAnyAddress_def isEmptyAddress_def getAnyAddress_def getEmptyAddress_def
      ANY_ADDRESS_def EMPTY_ADDRESS_def js_def cu_def toLowerCase_def lowerUnit_def)

text \<open>
  C10. The claim: for an address of exactly \<open>charsLength*2 + 2\<close> characters the
  result has \<open>charsLength*2 + 3\<close> characters, one more than the address. For
  \<open>charsLength\<close> from one on the code does so (\<open>shortenAddress_boundary\<close>). For
  \<open>charsLength = 0\<close> and the two-character address \<open>0x\<close> the result has five
  characters, because \<open>address.slice(-0)\<close> is the whole address.
\<close>

theorem shortenAddress_boundary_zero_chars:
  "int (length (js ''0x'')) = 0 * 2 + 2
   \<and> shortenAddress (JStr (js ''0x'')) (Some 0) = js ''0x'' @ [ellipsis] @ js ''0x''
   \<and> length (shortenAddress (JStr (js ''0x'')) (Some 0)) = 5"
  by (simp add: shortenAddress_def orElse_def slice_def js_def)

text \<open>
  C9. In every world the module can be in, a second call of \<open>getWeb3\<close> with the same
  provider returns the instance of the first and builds nothing, also after a call
  for another provider; two different providers get two different instances,
  whatever their fields are; and no provider has had more than one instance built.
\<close>

theorem getWeb3_one_instance_per_provider:
  "reachable accepts w \<longrightarrow>
     (getWeb3 accepts p w = Inr (c, w1) \<longrightarrow> getWeb3 accepts p w1 = Inr (c, w1))
   \<and> (getWeb3 accepts p w = Inr (c, w1) \<and> getWeb3 accepts q w1 = Inr (c2, w2)
        \<longrightarrow> getWeb3 accepts p w2 = Inr (c, w2))
   \<and> (p \<noteq> q \<and> getWeb3 accepts p w = Inr (c, w1) \<and> getWeb3 accepts q w1 = Inr (c2, w2)
        \<longrightarrow> c \<noteq> c2)
   \<and> (getWeb3 accepts p w = Inr (c, w1)
        \<longrightarrow> count_list (constructions w1) p = 1 \<and> count_list (constructions w1) r \<le> 1)"
proof (intro impI conjI)
  assume "getWeb3 accepts p w = Inr (c, w1)"
  then have "cache w1 p = Some c" by (rule getWeb3_cache_after)
  then show "getWeb3 accepts p w1 = Inr (c, w1)" by (rule getWeb3_cached_hit)
next
  assume h: "getWeb3 accepts p w = Inr (c, w1) \<and> getWeb3 accepts q w1 = Inr (c2, w2)"
  then have first: "getWeb3 accepts p w = Inr (c, w1)"
    and second: "getWeb3 accepts q w1 = Inr (c2, w2)"
    by simp_all
  from first have "cache w1 p = Some c" by (rule getWeb3_cache_after)
  with second have "cache w2 p = Some c" by (rule getWeb3_keeps)
  then show "getWeb3 accepts p w2 = Inr (c, w2)" by (rule getWeb3_cached_hit)
next
  assume r: "reachable accepts w"
    and h: "p \<noteq> q \<and> getWeb3 accepts p w = Inr (c, w1) \<and> getWeb3 accepts q w1 = Inr (c2, w2)"
  from h have ne: "p \<noteq> q" and first: "getWeb3 accepts p w = Inr (c, w1)"
    and second: "getWeb3 accepts q w1 = Inr (c2, w2)"
    by simp_all
  from r have "cacheOk w" by (rule reachable_cacheOk)
  then show "c \<noteq> c2" using ne first second by (rule getWeb3_distinct)
next
  assume r: "reachable accepts w" and h: "getWeb3 accepts p w = Inr (c, w1)"
  from r have ok: "cacheOk w" by (rule reachable_cacheOk)
  show "count_list (constructions w1) p = 1" using ok h by (rule getWeb3_built_once(1))
  show "count_list (constructions w1) r \<le> 1" using ok h by (rule getWeb3_built_once(2))
qed

theorem getWeb3_one_instance_per_provider_witness:
  "reachable (\<lambda>_. True) (initial twoProviders)
   \<and> twoProviders 0 = twoProviders 1
   \<and> getWeb3 (\<lambda>_. True) 0 (initial twoProviders) = Inr (0, afterFirst)
   \<and> getWeb3 (\<lambda>_. True) 1 afterFirst = Inr (1, afterSecond)
   \<and> getWeb3 (\<lambda>_. True) 0 afterFirst = Inr (0, afterFirst)
   \<and> getWeb3 (\<lambda>_. True) 0 afterSecond = Inr (0, afterSecond)
   \<and> count_list (constructions afterFirst) 0 = 1
   \<and> (0::nat) \<noteq> 1"
proof -
  let ?A = "\<lambda>_::string. True"
  have r: "reachable ?A (initial twoProviders)"
    by (rule reachable.start)
  have e: "twoProviders 0 = twoProviders 1"
    by (simp add: twoProviders_def)
  have g1: "getWeb3 ?A 0 (initial twoProviders) = Inr (0, afterFirst)"
    by (simp add: getWeb3_def newWeb3_def initial_def twoProviders_def afterFirst_def)
  have g2: "getWeb3 ?A 1 afterFirst = Inr (1, afterSecond)"
    by (simp add: getWeb3_def newWeb3_def twoProviders_def afterFirst_def afterSecond_def)
  note th = getWeb3_one_instance_per_provider
    [of ?A "initial twoProviders" 0 0 afterFirst 1 1 afterSecond 0, THEN mp, OF r]
  have a: "getWeb3 ?A 0 afterFirst = Inr (0, afterFirst)"
    by (rule th [THEN conjunct1, THEN mp, OF g1])
  have b: "getWeb3 ?A 0 afterSecond = Inr (0, afterSecond)"
    by (rule th [THEN conjunct2, THEN conjunct1, THEN mp, OF conjI [OF g1 g2]])
  have n: "(0::nat) \<noteq> 1"
    by (rule th [THEN conjunct2, THEN conjunct2, THEN conjunct1, THEN mp,
          OF conjI [OF _ conjI [OF g1 g2]]]) simp
  have k: "count_list (constructions afterFirst) 0 = 1"
    by (rule th [THEN conjunct2, THEN conjunct2, THEN conjunct2, THEN mp, OF g1, THEN conjunct1])
  from r e g1 g2 a b k n show ?thesis
    by (intro conjI)
qed
end
